theory Spec2Isabelle
  imports Complex_Main "HOL-Library.Multiset"
begin

section \<open>Python strings and the regular expressions of the engine\<close>

text \<open>
  The engine of \<^verbatim>\<open>qa_engine.py\<close> works on Python \<^verbatim>\<open>str\<close> values. A string is
  modelled as a \<^typ>\<open>string\<close>, each \<^typ>\<open>char\<close> standing for the code point of the same
  number (U+0000 to U+00FF); on these code points \<^verbatim>\<open>str.lower\<close>, \<^verbatim>\<open>str.isspace\<close> and the
  classes \<^verbatim>\<open>\s\<close> and \<^verbatim>\<open>\w\<close> of the \<^verbatim>\<open>re\<close> module are the tables below, and
  \<^verbatim>\<open>lower\<close> stays inside the range. Code points above U+00FF are outside the model.
\<close>

definition is_space :: "char \<Rightarrow> bool" where
  "is_space c = (let n = (of_char c :: nat) in
     (9 \<le> n \<and> n \<le> 13) \<or> (28 \<le> n \<and> n \<le> 32) \<or> n = 133 \<or> n = 160)"

definition is_word :: "char \<Rightarrow> bool" where
  "is_word c = (let n = (of_char c :: nat) in
     (48 \<le> n \<and> n \<le> 57) \<or> (65 \<le> n \<and> n \<le> 90) \<or> n = 95 \<or> (97 \<le> n \<and> n \<le> 122)
     \<or> n = 170 \<or> n = 178 \<or> n = 179 \<or> n = 181 \<or> n = 185 \<or> n = 186
     \<or> (188 \<le> n \<and> n \<le> 190) \<or> (192 \<le> n \<and> n \<le> 214) \<or> (216 \<le> n \<and> n \<le> 246)
     \<or> (248 \<le> n \<and> n \<le> 255))"

definition lower_char :: "char \<Rightarrow> char" where
  "lower_char c = (let n = (of_char c :: nat) in
     if (65 \<le> n \<and> n \<le> 90) \<or> (192 \<le> n \<and> n \<le> 222 \<and> n \<noteq> 215)
     then char_of (n + 32) else c)"

text \<open>\<^verbatim>\<open>text.lower()\<close>\<close>

definition lower :: "string \<Rightarrow> string" where
  "lower s = map lower_char s"

text \<open>\<^verbatim>\<open>re.sub(r'\s+', ' ', text)\<close>: every maximal run of whitespace becomes one space.\<close>

function collapse_ws :: "string \<Rightarrow> string" where
  "collapse_ws [] = []"
| "collapse_ws (c # cs) =
     (if is_space c then CHR '' '' # collapse_ws (dropWhile is_space cs)
      else c # collapse_ws cs)"
  by pat_completeness auto
termination
  by (relation "measure length") (auto simp: less_Suc_eq_le length_dropWhile_le)

text \<open>\<^verbatim>\<open>text.strip()\<close>: leading and trailing whitespace removed.\<close>

definition strip :: "string \<Rightarrow> string" where
  "strip s = rev (dropWhile is_space (rev (dropWhile is_space s)))"

text \<open>The characters that \<^verbatim>\<open>re.sub(r'[^\w\s\-\.\?\!]', '', text)\<close> keeps.\<close>

definition kept_char :: "char \<Rightarrow> bool" where
  "kept_char c = (is_word c \<or> is_space c \<or> c = CHR ''-'' \<or> c = CHR ''.''
     \<or> c = CHR ''?'' \<or> c = CHR ''!'')"

definition preprocess_text :: "string \<Rightarrow> string" where
  "preprocess_text text0 =
     (if text0 = [] then []
      else let text1 = lower text0;
               text2 = strip (collapse_ws text1);
               text3 = filter kept_char text2
           in text3)"

text \<open>\<^verbatim>\<open>needle in haystack\<close> on strings: the needle occurs as a contiguous substring.\<close>

fun starts_with :: "string \<Rightarrow> string \<Rightarrow> bool" where
  "starts_with s [] = True"
| "starts_with [] (k # ks) = False"
| "starts_with (c # cs) (k # ks) = (c = k \<and> starts_with cs ks)"

fun py_in :: "string \<Rightarrow> string \<Rightarrow> bool" where
  "py_in k [] = (k = [])"
| "py_in k (c # cs) = (starts_with (c # cs) k \<or> py_in k cs)"

text \<open>
  \<^verbatim>\<open>re.findall(r'\b\w{4,}\b', text)\<close>: a match starts at a word boundary, takes word
  characters greedily and ends at a word boundary, so the matches are the maximal runs of
  word characters that have at least four characters, from left to right.
\<close>

function findall_words :: "string \<Rightarrow> string list" where
  "findall_words [] = []"
| "findall_words (c # cs) =
     (if is_word c then
        (let w = c # takeWhile is_word cs;
             rest = findall_words (dropWhile is_word cs)
         in if 4 \<le> length w then w # rest else rest)
      else findall_words cs)"
  by pat_completeness auto
termination
  by (relation "measure length") (auto simp: less_Suc_eq_le length_dropWhile_le)

section \<open>Keyword extraction\<close>

definition tech_terms :: "string list" where
  "tech_terms =
     [''python'', ''pandas'', ''numpy'', ''matplotlib'', ''seaborn'', ''sklearn'',
      ''jupyter'', ''notebook'', ''dataframe'', ''csv'', ''api'', ''sql'', ''database'',
      ''visualization'', ''plot'', ''chart'', ''regression'', ''classification'',
      ''machine learning'', ''ml'', ''data science'', ''statistics'', ''analysis'']"

text \<open>
  \<^verbatim>\<open>list(set(keywords))\<close> lists the distinct keywords in the iteration order of a Python
  set, which depends on the hashes of the strings and is not fixed by the language. The
  conversion is the parameter \<open>uniq\<close> of the model; \<open>set_listing\<close> states what every
  such conversion does.
\<close>

definition set_listing :: "(string list \<Rightarrow> string list) \<Rightarrow> bool" where
  "set_listing uniq = (\<forall>xs. distinct (uniq xs) \<and> set (uniq xs) = set xs)"

definition extract_keywords :: "(string list \<Rightarrow> string list) \<Rightarrow> string \<Rightarrow> string list" where
  "extract_keywords uniq text0 =
     (let text_lower = lower text0;
          keywords = filter (\<lambda>tech_term. py_in tech_term text_lower) tech_terms;
          words = findall_words text_lower;
          keywords = keywords @ take 10 words
      in uniq keywords)"

section \<open>The engine and its corpora\<close>

text \<open>
  A corpus record is a Python \<^verbatim>\<open>dict\<close> loaded from JSON. The engine reads the keys
  \<^verbatim>\<open>title\<close>, \<^verbatim>\<open>content\<close>, \<^verbatim>\<open>description\<close> and \<^verbatim>\<open>url\<close>, each of which may be
  absent; the values it reads are strings. \<^verbatim>\<open>d.get(k, default)\<close> never fails,
  \<^verbatim>\<open>d[k]\<close> raises \<^verbatim>\<open>KeyError\<close> on an absent key.
\<close>

type_synonym pydict = "string \<rightharpoonup> string"

datatype error = KeyError string

definition dict_get :: "pydict \<Rightarrow> string \<Rightarrow> string \<Rightarrow> string" where
  "dict_get d k dflt = (case d k of None \<Rightarrow> dflt | Some v \<Rightarrow> v)"

definition subscript :: "pydict \<Rightarrow> string \<Rightarrow> error + string" where
  "subscript d k = (case d k of None \<Rightarrow> Inl (KeyError k) | Some v \<Rightarrow> Inr v)"

text \<open>The truth value of \<^verbatim>\<open>d.get(k)\<close>: the key is present and its string is not empty.\<close>

definition truthy_get :: "pydict \<Rightarrow> string \<Rightarrow> bool" where
  "truthy_get d k = (case d k of None \<Rightarrow> False | Some v \<Rightarrow> v \<noteq> [])"

record qa_engine =
  discourse_posts :: "pydict list"
  course_content :: "pydict list"

text \<open>The dictionaries that the two retrieval functions append to their result lists.\<close>

record post_match =
  pm_post :: pydict
  pm_score :: rat
  pm_title_score :: int
  pm_content_score :: int
  pm_keyword_matches :: nat

record content_match =
  cm_content :: pydict
  cm_score :: int
  cm_keyword_matches :: nat

section \<open>Scoring\<close>

text \<open>
  \<^verbatim>\<open>fuzz.partial_ratio\<close> belongs to the fuzzywuzzy library, not to this repository: it
  is the parameter \<open>pr\<close> of the model, an integer-valued function of two strings.
  Python evaluates \<^verbatim>\<open>content_score * 0.8\<close> in binary floating point; the model
  computes with the exact rational \<open>4/5\<close>, so rounding in the last bit is not modelled.
\<close>

definition keyword_count :: "string list \<Rightarrow> string \<Rightarrow> nat" where
  "keyword_count keywords text_processed =
     length (filter (\<lambda>keyword. py_in keyword text_processed) keywords)"

definition post_final_score :: "int \<Rightarrow> int \<Rightarrow> nat \<Rightarrow> rat" where
  "post_final_score title_score content_score keyword_matches =
     (let combined_score = max (of_int title_score) (of_int content_score * (4 / 5));
          keyword_bonus = min (int keyword_matches * 10) 30
      in combined_score + of_int keyword_bonus)"

definition content_final_score :: "int \<Rightarrow> nat \<Rightarrow> int" where
  "content_final_score score keyword_matches =
     (let keyword_bonus = min (int keyword_matches * 15) 40
      in score + keyword_bonus)"

text \<open>The body of the loop of \<^verbatim>\<open>find_similar_posts\<close>, up to the threshold test.\<close>

definition score_post ::
  "(string list \<Rightarrow> string list) \<Rightarrow> (string \<Rightarrow> string \<Rightarrow> int) \<Rightarrow> string \<Rightarrow> pydict \<Rightarrow> post_match" where
  "score_post uniq pr question post =
     (let question_processed = preprocess_text question;
          post_text = dict_get post ''title'' [] @ '' '' @ dict_get post ''content'' [];
          post_text_processed = preprocess_text post_text;
          title_score = pr question_processed (preprocess_text (dict_get post ''title'' []));
          content_score = pr question_processed post_text_processed;
          keywords = extract_keywords uniq question;
          keyword_matches = keyword_count keywords post_text_processed
      in \<lparr>pm_post = post,
          pm_score = post_final_score title_score content_score keyword_matches,
          pm_title_score = title_score,
          pm_content_score = content_score,
          pm_keyword_matches = keyword_matches\<rparr>)"

text \<open>The body of the loop of \<^verbatim>\<open>find_relevant_content\<close>, up to the threshold test.\<close>

definition score_content ::
  "(string list \<Rightarrow> string list) \<Rightarrow> (string \<Rightarrow> string \<Rightarrow> int) \<Rightarrow> string \<Rightarrow> pydict \<Rightarrow> content_match" where
  "score_content uniq pr question content =
     (let question_processed = preprocess_text question;
          content_text = dict_get content ''title'' [] @ '' '' @ dict_get content ''description'' [];
          content_text_processed = preprocess_text content_text;
          score = pr question_processed content_text_processed;
          keywords = extract_keywords uniq question;
          keyword_matches = keyword_count keywords content_text_processed
      in \<lparr>cm_content = content,
          cm_score = content_final_score score keyword_matches,
          cm_keyword_matches = keyword_matches\<rparr>)"

section \<open>Retrieval\<close>

text \<open>
  The \<^verbatim>\<open>for\<close> loops append the matches that reach the threshold. \<^verbatim>\<open>list.sort\<close> with
  \<^verbatim>\<open>reverse=True\<close> is a stable sort by descending key: it is the stable insertion sort
  \<^const>\<open>sort_key\<close> on the negated score.
\<close>

fun posts_loop ::
  "(string list \<Rightarrow> string list) \<Rightarrow> (string \<Rightarrow> string \<Rightarrow> int) \<Rightarrow> string \<Rightarrow> int
     \<Rightarrow> pydict list \<Rightarrow> post_match list \<Rightarrow> post_match list" where
  "posts_loop uniq pr question threshold [] similar_posts = similar_posts"
| "posts_loop uniq pr question threshold (post # rest) similar_posts =
     (let m = score_post uniq pr question post
      in posts_loop uniq pr question threshold rest
           (if of_int threshold \<le> pm_score m then similar_posts @ [m] else similar_posts))"

definition find_similar_posts ::
  "(string list \<Rightarrow> string list) \<Rightarrow> (string \<Rightarrow> string \<Rightarrow> int) \<Rightarrow> qa_engine \<Rightarrow> string \<Rightarrow> int
     \<Rightarrow> post_match list" where
  "find_similar_posts uniq pr self question threshold =
     (if discourse_posts self = [] then []
      else let similar_posts = posts_loop uniq pr question threshold (discourse_posts self) [];
               similar_posts = sort_key (\<lambda>x. - pm_score x) similar_posts
           in take 5 similar_posts)"

fun content_loop ::
  "(string list \<Rightarrow> string list) \<Rightarrow> (string \<Rightarrow> string \<Rightarrow> int) \<Rightarrow> string \<Rightarrow> int
     \<Rightarrow> pydict list \<Rightarrow> content_match list \<Rightarrow> content_match list" where
  "content_loop uniq pr question threshold [] relevant_content = relevant_content"
| "content_loop uniq pr question threshold (content # rest) relevant_content =
     (let m = score_content uniq pr question content
      in content_loop uniq pr question threshold rest
           (if threshold \<le> cm_score m then relevant_content @ [m] else relevant_content))"

definition find_relevant_content ::
  "(string list \<Rightarrow> string list) \<Rightarrow> (string \<Rightarrow> string \<Rightarrow> int) \<Rightarrow> qa_engine \<Rightarrow> string \<Rightarrow> int
     \<Rightarrow> content_match list" where
  "find_relevant_content uniq pr self question threshold =
     (if course_content self = [] then []
      else let relevant_content = content_loop uniq pr question threshold (course_content self) [];
               relevant_content = sort_key (\<lambda>x. - cm_score x) relevant_content
           in take 3 relevant_content)"

section \<open>Answer synthesis\<close>

text \<open>
  The templates of \<^verbatim>\<open>generate_answer\<close> start every item with U+2022 (a bullet) and a
  space. The bullet is the one code point of the program text above U+00FF; the answer
  string carries it as the three bytes of its UTF-8 encoding.
\<close>

definition bullet :: string where
  "bullet = [CHR 0xE2, CHR 0x80, CHR 0xA2]"

definition newline :: string where
  "newline = [CHR 0x0A]"

text \<open>\<^verbatim>\<open>sep.join(parts)\<close>\<close>

fun join :: "string \<Rightarrow> string list \<Rightarrow> string" where
  "join sep [] = []"
| "join sep [p] = p"
| "join sep (p # q # ps) = p @ sep @ join sep (q # ps)"

definition render_content :: "content_match \<Rightarrow> string" where
  "render_content item =
     (let content = cm_content item;
          title = dict_get content ''title'' ''Untitled'';
          description = dict_get content ''description'' []
      in if description \<noteq> []
         then bullet @ '' **'' @ title @ ''**: '' @ take 200 description @ ''...''
         else bullet @ '' **'' @ title @ ''**'')"

text \<open>\<^verbatim>\<open>content[:300].split('.')[0]\<close> is the text before the first full stop.\<close>

definition render_post :: "post_match \<Rightarrow> string" where
  "render_post item =
     (let post = pm_post item;
          title = dict_get post ''title'' ''Untitled Post'';
          content = dict_get post ''content'' []
      in if content \<noteq> []
         then (let content_preview = takeWhile (\<lambda>c. c \<noteq> CHR ''.'') (take 300 content) @ ''.''
               in bullet @ '' **'' @ title @ ''**: '' @ content_preview)
         else bullet @ '' **'' @ title @ ''**'')"

definition generate_answer :: "string \<Rightarrow> post_match list \<Rightarrow> content_match list \<Rightarrow> string" where
  "generate_answer question similar_posts relevant_content =
     (if similar_posts \<noteq> [] \<or> relevant_content \<noteq> [] then
        (let answer_parts =
               [''Based on the available course materials and forum discussions, here's what I found:''];
             answer_parts =
               (if relevant_content \<noteq> []
                then answer_parts @ [newline @ ''**Course Content:**'']
                       @ map render_content (take 2 relevant_content)
                else answer_parts);
             answer_parts =
               (if similar_posts \<noteq> []
                then answer_parts @ [newline @ ''**Related Forum Discussions:**'']
                       @ map render_post (take 2 similar_posts)
                else answer_parts);
             answer_parts = answer_parts @
               [newline @ ''For more detailed information, please check the supporting links provided below.'']
         in join newline answer_parts)
      else ''I couldn't find specific information related to your question in the current knowledge base. ''
           @ ''Please try rephrasing your question or contact the course instructor for assistance.'')"

section \<open>The public interface\<close>

record link =
  link_url :: string
  link_text :: string

record payload =
  answer :: string
  links :: "link list"

text \<open>
  The two loops of \<^verbatim>\<open>get_answer\<close> that collect the links. \<^verbatim>\<open>content['url']\<close> and
  \<^verbatim>\<open>post['url']\<close> are subscripts, which raise on an absent key: the loops return
  an error or the extended list.
\<close>

fun content_links :: "content_match list \<Rightarrow> link list \<Rightarrow> error + link list" where
  "content_links [] links0 = Inr links0"
| "content_links (item # rest) links0 =
     (let content = cm_content item
      in if truthy_get content ''url''
         then (case subscript content ''url'' of
                 Inl e \<Rightarrow> Inl e
               | Inr u \<Rightarrow> content_links rest (links0 @
                   [\<lparr>link_url = u,
                     link_text = ''Course Material: '' @ dict_get content ''title'' ''Untitled''\<rparr>]))
         else content_links rest links0)"

fun post_links :: "post_match list \<Rightarrow> link list \<Rightarrow> error + link list" where
  "post_links [] links0 = Inr links0"
| "post_links (item # rest) links0 =
     (let post = pm_post item
      in if truthy_get post ''url''
         then (case subscript post ''url'' of
                 Inl e \<Rightarrow> Inl e
               | Inr u \<Rightarrow> post_links rest (links0 @
                   [\<lparr>link_url = u,
                     link_text = ''Forum Discussion: '' @ dict_get post ''title'' ''Untitled Post''\<rparr>]))
         else post_links rest links0)"

definition get_answer ::
  "(string list \<Rightarrow> string list) \<Rightarrow> (string \<Rightarrow> string \<Rightarrow> int) \<Rightarrow> qa_engine \<Rightarrow> string
     \<Rightarrow> error + payload" where
  "get_answer uniq pr self question =
     (if question = [] \<or> strip question = []
      then Inr \<lparr>answer = ''Please provide a valid question.'', links = []\<rparr>
      else let similar_posts = find_similar_posts uniq pr self question 60;
               relevant_content = find_relevant_content uniq pr self question 50;
               answer0 = generate_answer question similar_posts relevant_content
           in case content_links relevant_content [] of
                Inl e \<Rightarrow> Inl e
              | Inr links1 \<Rightarrow>
                  (case post_links similar_posts links1 of
                     Inl e \<Rightarrow> Inl e
                   | Inr links2 \<Rightarrow> Inr \<lparr>answer = answer0, links = take 5 links2\<rparr>))"

text \<open>
  \<^verbatim>\<open>get_stats\<close> reads the clock: \<open>now\<close> is the text of
  \<^verbatim>\<open>datetime.now().isoformat()\<close> at the call.
\<close>

record stats =
  stat_discourse_posts :: nat
  stat_course_content_items :: nat
  stat_total_items :: nat
  stat_last_updated :: string

definition get_stats :: "qa_engine \<Rightarrow> string \<Rightarrow> stats" where
  "get_stats self now =
     \<lparr>stat_discourse_posts = length (discourse_posts self),
      stat_course_content_items = length (course_content self),
      stat_total_items = length (discourse_posts self) + length (course_content self),
      stat_last_updated = now\<rparr>"

section \<open>Predicates used in the proofs\<close>


section \<open>Example inputs\<close>

text \<open>
  Concrete corpora, questions and a concrete similarity function, on which the theorems
  below are evaluated. \<open>example_pr\<close> stands in for \<^verbatim>\<open>fuzz.partial_ratio\<close>: ten
  points for each character of the second string, at most 100.
\<close>

definition example_pr :: "string \<Rightarrow> string \<Rightarrow> int" where
  "example_pr a b = min 100 (int (length b) * 10)"


definition example_linked :: qa_engine where
  "example_linked =
     \<lparr>discourse_posts =
        [[''title'' \<mapsto> ''aaaaaaa'', ''url'' \<mapsto> ''http://f/1''],
         [''title'' \<mapsto> ''bbbbbbbb'', ''url'' \<mapsto> ''''],
         [''title'' \<mapsto> ''ccccccccc'', ''url'' \<mapsto> ''http://f/3''],
         [''title'' \<mapsto> ''dddddd'', ''url'' \<mapsto> ''http://x/1''],
         [''title'' \<mapsto> ''eeeeeee'', ''url'' \<mapsto> ''http://f/5'']],
      course_content =
        [[''title'' \<mapsto> ''hhhhhhh'', ''url'' \<mapsto> ''http://x/1''],
         [''title'' \<mapsto> ''iiiiiiii''],
         [''title'' \<mapsto> ''jjjjjj'', ''url'' \<mapsto> ''http://x/1'']]\<rparr>"


definition example_question :: string where
  "example_question = ''How do I load a csv with pandas?''"

definition example_post :: pydict where
  "example_post = [''title'' \<mapsto> ''Using pandas'', ''content'' \<mapsto> ''Load a CSV file.'']"

definition example_content :: pydict where
  "example_content = [''title'' \<mapsto> ''Using pandas'',
     ''description'' \<mapsto> ''How to load a CSV into a dataframe'', ''url'' \<mapsto> ''http://x/1'']"

section \<open>Whitespace and blank questions\<close>

lemma dropWhile_all_iff: "(\<forall>x\<in>set (dropWhile P s). P x) \<longleftrightarrow> dropWhile P s = []"
proof
  assume a: "\<forall>x\<in>set (dropWhile P s). P x"
  show "dropWhile P s = []"
  proof (rule ccontr)
    assume n: "dropWhile P s \<noteq> []"
    then have "\<not> P (hd (dropWhile P s))" by (rule hd_dropWhile)
    moreover from n have "hd (dropWhile P s) \<in> set (dropWhile P s)" by simp
    ultimately show False using a by blast
  qed
qed (auto dest: set_dropWhileD)

lemma strip_empty_iff: "strip s = [] \<longleftrightarrow> list_all is_space s"
  by (simp add: strip_def dropWhile_eq_Nil_conv dropWhile_all_iff list_all_iff)

text \<open>
  Claim C5. For every question that is empty or consists only of whitespace,
  \<open>get_answer\<close> returns the fixed answer "Please provide a valid question." with an
  empty list of links. The result is the same for every similarity function and every
  pair of corpora: nothing is scored.
\<close>

theorem blank_question_prompt:
  "list_all is_space question \<Longrightarrow>
     get_answer uniq pr self question
       = Inr \<lparr>answer = ''Please provide a valid question.'', links = []\<rparr>"
  by (simp add: get_answer_def strip_empty_iff)

theorem blank_question_prompt_witness:
  "list_all is_space [CHR '' '', CHR 0x09, CHR 0x0A]
   \<and> get_answer remdups (\<lambda>a b. 100)
        \<lparr>discourse_posts = [[''title'' \<mapsto> ''pandas'', ''url'' \<mapsto> ''http://x/1'']],
         course_content = [[''title'' \<mapsto> ''pandas'', ''url'' \<mapsto> ''http://x/2'']]\<rparr>
        [CHR '' '', CHR 0x09, CHR 0x0A]
       = Inr \<lparr>answer = ''Please provide a valid question.'', links = []\<rparr>"
proof -
  have h: "list_all is_space [CHR '' '', CHR 0x09, CHR 0x0A]"
    by (simp add: is_space_def)
  from blank_question_prompt [OF h] h show ?thesis by blast
qed

section \<open>The keyword bonus\<close>

text \<open>
  Claim C8. With the item and the two similarity scores fixed, more keyword matches never
  lower the final score: the bonus \<open>min (keyword_matches * 10) 30\<close> of a post and the
  bonus \<open>min (keyword_matches * 15) 40\<close> of a content item do not decrease when
  \<open>keyword_matches\<close> grows.
\<close>

theorem keyword_bonus_monotone:
  "k \<le> k' \<Longrightarrow>
     post_final_score title_score content_score k \<le> post_final_score title_score content_score k'
     \<and> content_final_score score k \<le> content_final_score score k'"
  by (simp add: post_final_score_def content_final_score_def Let_def min_def)

theorem keyword_bonus_monotone_witness:
  "(1::nat) \<le> 2 \<and> post_final_score 40 50 1 = 50 \<and> post_final_score 40 50 2 = 60
     \<and> post_final_score 40 50 1 \<le> post_final_score 40 50 2
     \<and> content_final_score 40 1 = 55 \<and> content_final_score 40 2 = 70
     \<and> content_final_score 40 1 \<le> content_final_score 40 2"
  using keyword_bonus_monotone [of 1 2 40 50 40]
  by (simp add: post_final_score_def content_final_score_def)

section \<open>Statistics\<close>

text \<open>
  Claim C9. For an engine holding p posts and c content items, \<open>get_stats\<close> reports
  p posts, c content items and the total p + c, the sum of the two counts, together with
  the time stamp read at the call.
\<close>

theorem get_stats_counts:
  "stat_discourse_posts (get_stats self now) = length (discourse_posts self)
   \<and> stat_course_content_items (get_stats self now) = length (course_content self)
   \<and> stat_total_items (get_stats self now)
       = stat_discourse_posts (get_stats self now) + stat_course_content_items (get_stats self now)
   \<and> stat_last_updated (get_stats self now) = now"
  by (simp add: get_stats_def)

section \<open>The text normalizer\<close>


lemma lower_char_space: "is_space c \<Longrightarrow> lower_char c = c"
  by (auto simp: lower_char_def is_space_def Let_def)

lemma is_space_lower_char: "is_space (lower_char c) = is_space c"
  by (auto simp: lower_char_def is_space_def Let_def)






















section \<open>The list of distinct keywords\<close>

lemma set_listing_remdups: "set_listing remdups"
  by (simp add: set_listing_def)

lemma set_listing_rev_remdups: "set_listing (\<lambda>xs. rev (remdups xs))"
  by (simp add: set_listing_def)

lemma example_pr_range: "\<forall>a b. 0 \<le> example_pr a b \<and> example_pr a b \<le> 100"
  by (simp add: example_pr_def)

lemma keyword_count_card:
  "distinct ks \<Longrightarrow> keyword_count ks t = card {k \<in> set ks. py_in k t}"
proof -
  assume "distinct ks"
  then have "distinct (filter (\<lambda>k. py_in k t) ks)" by simp
  then have "card (set (filter (\<lambda>k. py_in k t) ks)) = length (filter (\<lambda>k. py_in k t) ks)"
    by (rule distinct_card)
  then show ?thesis by (simp add: keyword_count_def)
qed

lemma set_extract_keywords:
  "set_listing uniq \<Longrightarrow>
     set (extract_keywords uniq question)
       = {t \<in> set tech_terms. py_in t (lower question)}
         \<union> set (take 10 (findall_words (lower question)))"
  by (simp add: extract_keywords_def set_listing_def Let_def)

lemma distinct_extract_keywords:
  "set_listing uniq \<Longrightarrow> distinct (extract_keywords uniq question)"
  by (simp add: extract_keywords_def set_listing_def Let_def)







section \<open>The two scorers\<close>



text \<open>
  Claim C6. With a similarity function that returns no negative number, every final
  score of either scorer is non-negative. A final score can be greater than 100 although
  the similarity function stays within 0 and 100: the keyword bonus is added on top and
  nothing scales the sum back.
\<close>

theorem final_score_nonnegative:
  assumes "\<forall>a b. 0 \<le> pr a b"
  shows "0 \<le> pm_score (score_post uniq pr question post)
     \<and> 0 \<le> cm_score (score_content uniq pr question content)
     \<and> (\<exists>uniq' pr' question' post' content'.
          set_listing uniq' \<and> (\<forall>a b. 0 \<le> pr' a b \<and> pr' a b \<le> 100)
          \<and> 100 < pm_score (score_post uniq' pr' question' post')
          \<and> 100 < cm_score (score_content uniq' pr' question' content'))"
proof (intro conjI)
  from assms have "0 \<le> pr (preprocess_text question)
      (preprocess_text (dict_get post ''title'' []))" by blast
  then have "(0::rat) \<le> of_int (pr (preprocess_text question)
      (preprocess_text (dict_get post ''title'' [])))" by simp
  then show "0 \<le> pm_score (score_post uniq pr question post)"
    by (simp add: score_post_def post_final_score_def Let_def max_def min_def)
  from assms have "0 \<le> pr (preprocess_text question)
      (preprocess_text (dict_get content ''title'' [] @ '' '' @ dict_get content ''description'' []))"
    by blast
  then show "0 \<le> cm_score (score_content uniq pr question content)"
    by (simp add: score_content_def content_final_score_def Let_def min_def)
  have "100 < pm_score (score_post remdups example_pr example_question example_post)"
    by code_simp
  moreover have "100 < cm_score (score_content remdups example_pr example_question example_content)"
    by code_simp
  ultimately show "\<exists>uniq' pr' question' post' content'.
          set_listing uniq' \<and> (\<forall>a b. 0 \<le> pr' a b \<and> pr' a b \<le> 100)
          \<and> 100 < pm_score (score_post uniq' pr' question' post')
          \<and> 100 < cm_score (score_content uniq' pr' question' content')"
    using set_listing_remdups example_pr_range by blast
qed

theorem final_score_nonnegative_witness:
  "(\<forall>a b. 0 \<le> example_pr a b)
   \<and> 0 \<le> pm_score (score_post remdups example_pr example_question example_post)
   \<and> 0 \<le> cm_score (score_content remdups example_pr example_question example_content)
   \<and> pm_score (score_post remdups example_pr ''zz'' Map.empty) = 0
   \<and> cm_score (score_content remdups example_pr ''zz'' Map.empty) = 0"
proof -
  have h: "\<forall>a b. 0 \<le> example_pr a b" using example_pr_range by blast
  have a: "pm_score (score_post remdups example_pr ''zz'' Map.empty) = 0" by code_simp
  have b: "cm_score (score_content remdups example_pr ''zz'' Map.empty) = 0" by code_simp
  from final_score_nonnegative [OF h, of remdups example_question example_post example_content]
  have "0 \<le> pm_score (score_post remdups example_pr example_question example_post)
   \<and> 0 \<le> cm_score (score_content remdups example_pr example_question example_content)" by blast
  with h a b show ?thesis by blast
qed

section \<open>The retriever\<close>

lemma posts_loop_eq:
  "posts_loop uniq pr question threshold ps acc
     = acc @ filter (\<lambda>m. of_int threshold \<le> pm_score m) (map (score_post uniq pr question) ps)"
  by (induction ps arbitrary: acc) (simp_all add: Let_def)

lemma content_loop_eq:
  "content_loop uniq pr question threshold cs acc
     = acc @ filter (\<lambda>m. threshold \<le> cm_score m) (map (score_content uniq pr question) cs)"
  by (induction cs arbitrary: acc) (simp_all add: Let_def)

lemma find_similar_posts_eq:
  "find_similar_posts uniq pr self question threshold
     = take 5 (sort_key (\<lambda>x. - pm_score x)
         (filter (\<lambda>m. of_int threshold \<le> pm_score m)
            (map (score_post uniq pr question) (discourse_posts self))))"
  by (simp add: find_similar_posts_def posts_loop_eq Let_def)

lemma find_relevant_content_eq:
  "find_relevant_content uniq pr self question threshold
     = take 3 (sort_key (\<lambda>x. - cm_score x)
         (filter (\<lambda>m. threshold \<le> cm_score m)
            (map (score_content uniq pr question) (course_content self))))"
  by (simp add: find_relevant_content_def content_loop_eq Let_def)




section \<open>The links and the answer\<close>










section \<open>Determinism\<close>

lemma keyword_count_order_free:
  assumes "set_listing uniq1" and "set_listing uniq2"
  shows "keyword_count (extract_keywords uniq1 question) t
       = keyword_count (extract_keywords uniq2 question) t"
proof -
  have "set (extract_keywords uniq1 question) = set (extract_keywords uniq2 question)"
    by (simp add: set_extract_keywords [OF assms(1)] set_extract_keywords [OF assms(2)])
  then show ?thesis
    by (simp add: keyword_count_card distinct_extract_keywords [OF assms(1)]
          distinct_extract_keywords [OF assms(2)])
qed

lemma score_post_order_free:
  assumes "set_listing uniq1" and "set_listing uniq2"
  shows "score_post uniq1 pr question = score_post uniq2 pr question"
  by (rule ext) (simp add: score_post_def Let_def keyword_count_order_free [OF assms])

lemma score_content_order_free:
  assumes "set_listing uniq1" and "set_listing uniq2"
  shows "score_content uniq1 pr question = score_content uniq2 pr question"
  by (rule ext) (simp add: score_content_def Let_def keyword_count_order_free [OF assms])

text \<open>
  Claim C10. The payload of \<open>get_answer\<close> depends only on the question, the corpora
  and the similarity function: it is the same whichever order the set of keywords is
  listed in, and \<open>get_answer\<close> is not given the clock. The statistics are different:
  two calls of \<open>get_stats\<close> agree exactly when the clock reads the same.
\<close>

theorem get_answer_deterministic:
  assumes "set_listing uniq1" and "set_listing uniq2"
  shows "get_answer uniq1 pr self question = get_answer uniq2 pr self question
     \<and> ((get_stats self now1 = get_stats self now2) = (now1 = now2))"
proof
  have p: "find_similar_posts uniq1 pr self question 60 = find_similar_posts uniq2 pr self question 60"
    by (simp only: find_similar_posts_eq score_post_order_free [OF assms])
  have c: "find_relevant_content uniq1 pr self question 50
         = find_relevant_content uniq2 pr self question 50"
    by (simp only: find_relevant_content_eq score_content_order_free [OF assms])
  show "get_answer uniq1 pr self question = get_answer uniq2 pr self question"
    by (simp only: get_answer_def p c)
  show "(get_stats self now1 = get_stats self now2) = (now1 = now2)"
    by (auto simp: get_stats_def)
qed

theorem get_answer_deterministic_witness:
  "set_listing remdups \<and> set_listing (\<lambda>xs. rev (remdups xs))
   \<and> extract_keywords remdups example_question = [''csv'', ''load'', ''with'', ''pandas'']
   \<and> extract_keywords (\<lambda>xs. rev (remdups xs)) example_question
       = [''pandas'', ''with'', ''load'', ''csv'']
   \<and> get_answer remdups example_pr example_linked example_question
       = get_answer (\<lambda>xs. rev (remdups xs)) example_pr example_linked example_question
   \<and> get_stats example_linked ''2025-06-01T10:00:00'' \<noteq> get_stats example_linked ''2025-06-01T10:00:01''"
proof -
  have a: "extract_keywords remdups example_question = [''csv'', ''load'', ''with'', ''pandas'']"
    by code_simp
  have b: "extract_keywords (\<lambda>xs. rev (remdups xs)) example_question
       = [''pandas'', ''with'', ''load'', ''csv'']"
    by code_simp
  note t = get_answer_deterministic [OF set_listing_remdups set_listing_rev_remdups,
      of example_pr example_linked example_question "''2025-06-01T10:00:00''" "''2025-06-01T10:00:01''"]
  from t have c: "get_answer remdups example_pr example_linked example_question
       = get_answer (\<lambda>xs. rev (remdups xs)) example_pr example_linked example_question"
    by blast
  from t have d: "get_stats example_linked ''2025-06-01T10:00:00'' \<noteq> get_stats example_linked ''2025-06-01T10:00:01''"
    by simp
  from set_listing_remdups set_listing_rev_remdups a b c d show ?thesis by blast
qed

end
